theory Spec2Isabelle
  imports Main "HOL-Library.Sublist"
begin

section \<open>Keyword idea generator: the page script \<open>index.tsx\<close>\<close>

text \<open>
  The script is one module: a prompt template, a submit handler that calls the
  text-generation service and renders its answer, and two export handlers that read
  tables back out of the rendered answer. Everything the script does to the page is
  written here as a function from page state to page state; the services it calls
  (the markdown converter, the sanitizer, the browser's \<open>innerText\<close>, \<open>JSON.stringify\<close>)
  are parameters of the functions that use them.
\<close>

subsection \<open>Strings\<close>

text \<open>
  A string is a list of characters, one \<^typ>\<open>char\<close> per code unit below 256. The named
  characters are the ones the script tests for.
\<close>

definition dquote :: char where
  "dquote = CHR 0x22"

definition comma :: char where
  "comma = CHR 0x2C"

definition newline :: char where
  "newline = CHR 0x0A"

text \<open>
  \<open>String.prototype.trim\<close> removes white space and line terminators from both ends. Below
  256 these are tab, line feed, vertical tab, form feed, carriage return, space and the
  no-break space.
\<close>

definition is_space :: "char \<Rightarrow> bool" where
  "is_space c = (c \<in> {CHR 0x09, CHR 0x0A, CHR 0x0B, CHR 0x0C, CHR 0x0D, CHR 0x20, CHR 0xA0})"

definition trim :: "string \<Rightarrow> string" where
  "trim s = rev (dropWhile is_space (rev (dropWhile is_space s)))"

text \<open>\<open>Array.prototype.join\<close>: the elements with the separator between neighbours.\<close>

fun join :: "string \<Rightarrow> string list \<Rightarrow> string" where
  "join sep [] = []"
| "join sep [x] = x"
| "join sep (x # y # ys) = x @ sep @ join sep (y # ys)"

subsection \<open>The rendered document\<close>

text \<open>
  A DOM node is an element with its tag name and child nodes, a text node or a comment.
  The tag is stored as \<open>tagName\<close> reports it for an HTML element, in upper case; the
  selector \<open>h4\<close> selects the HTML elements whose \<open>tagName\<close> is \<open>H4\<close>.
\<close>

datatype node = Element string "node list" | Text string | Comment string

fun tagName :: "node \<Rightarrow> string" where
  "tagName (Element t cs) = t"
| "tagName n = []"

fun childNodes :: "node \<Rightarrow> node list" where
  "childNodes (Element t cs) = cs"
| "childNodes n = []"

text \<open>\<open>textContent\<close> of an element: the data of its descendant text nodes, in order.\<close>

fun textContent :: "node \<Rightarrow> string" where
  "textContent (Element t cs) = concat (map textContent cs)"
| "textContent (Text s) = s"
| "textContent (Comment s) = []"

fun nextElementSibling :: "node list \<Rightarrow> node option" where
  "nextElementSibling [] = None"
| "nextElementSibling (Element t cs # ns) = Some (Element t cs)"
| "nextElementSibling (n # ns) = nextElementSibling ns"

text \<open>
  \<open>descendants b ns\<close> lists the elements below a parent whose child nodes are \<open>ns\<close>, in
  document order. Each comes with what the script asks of it later: whether it has a
  \<open>tbody\<close> ancestor (\<open>b\<close> says so for the parent itself), and its \<open>nextElementSibling\<close>.
\<close>

type_synonym hit = "bool \<times> node \<times> node option"

fun descendants :: "bool \<Rightarrow> node list \<Rightarrow> hit list" where
  "descendants b [] = []"
| "descendants b (Element t cs # ns) =
     (b, Element t cs, nextElementSibling ns)
       # descendants (b \<or> t = ''TBODY'') cs @ descendants b ns"
| "descendants b (n # ns) = descendants b ns"

definition has_tag :: "string \<Rightarrow> hit \<Rightarrow> bool" where
  "has_tag t h = (tagName (fst (snd h)) = t)"

text \<open>\<open>querySelectorAll\<close> with a type selector, on a parent with child nodes \<open>ns\<close>.\<close>

definition querySelectorAll :: "string \<Rightarrow> bool \<Rightarrow> node list \<Rightarrow> hit list" where
  "querySelectorAll t b ns = filter (has_tag t) (descendants b ns)"

text \<open>
  \<open>querySelectorAll('tbody tr')\<close> on an element: the \<open>tr\<close> elements below it that have a
  \<open>tbody\<close> ancestor. A selector is matched against the whole document, so the \<open>tbody\<close>
  may be any ancestor of the row, also the element itself or one above it; \<open>b\<close> says
  whether the element has a \<open>tbody\<close> above it.
\<close>

definition tbody_tr :: "bool \<Rightarrow> node \<Rightarrow> node list" where
  "tbody_tr b table =
     map (\<lambda>h. fst (snd h))
       (filter (\<lambda>h. fst h \<and> has_tag ''TR'' h)
          (descendants (b \<or> tagName table = ''TBODY'') (childNodes table)))"

text \<open>
  \<open>Array.from(e.querySelectorAll(t)).map(c => c.innerText.trim())\<close>. What \<open>innerText\<close>
  returns depends on the layout of the page, so it is the parameter \<open>it\<close>.
\<close>

text \<open>The flag plays no part in a type selector, so \<open>cell_nodes\<close> starts it as \<open>False\<close>.\<close>

definition cell_nodes :: "string \<Rightarrow> node \<Rightarrow> node list" where
  "cell_nodes t e = map (\<lambda>h. fst (snd h)) (querySelectorAll t False (childNodes e))"

definition cell_texts :: "(node \<Rightarrow> string) \<Rightarrow> string \<Rightarrow> node \<Rightarrow> string list" where
  "cell_texts it t e = map (\<lambda>c. trim (it c)) (cell_nodes t e)"

subsection \<open>The page\<close>

record FormInputs =
  service :: string
  url :: string
  location :: string
  goal :: string
  language :: string

text \<open>
  The state of the page that the script reads and writes: the \<open>isLoading\<close> flag, the
  properties of the elements it holds, and a log of each effect that leaves the script
  (assignments to the results container, requests, the console, alerts, downloads).
  The elements that the script looks up by id or class are taken to exist, as its casts
  say; only \<open>placeholder\<close> is tested by the script, so its \<open>style.display\<close> is optional
  here (\<open>None\<close>: no such element). \<open>resultsContainer_innerHTML\<close> holds the markup last
  assigned, and \<open>defaultPrevented\<close> belongs to the submit event being handled.
\<close>

record page =
  isLoading :: bool
  form :: FormInputs
  generateBtn_disabled :: bool
  spinner_hidden :: bool
  btnText_textContent :: string
  resultsContainer_innerHTML :: string
  exportControls_hidden :: bool
  placeholder_display :: "string option"
  defaultPrevented :: bool
  innerHTML_writes :: "string list"
  requests :: "(string \<times> string) list"
  console_errors :: "(string \<times> string) list"
  alerts :: "string list"
  downloads :: "(string \<times> string \<times> string) list"

text \<open>\<open>setLoading\<close> (lines 39 to 44) and \<open>displayError\<close> (lines 50 to 53).\<close>

definition setLoading :: "bool \<Rightarrow> page \<Rightarrow> page" where
  "setLoading loading s =
     s\<lparr>isLoading := loading,
       generateBtn_disabled := loading,
       spinner_hidden := (\<not> loading),
       btnText_textContent := (if loading then ''Generating...'' else ''Generate Keywords'')\<rparr>"

definition set_innerHTML :: "string \<Rightarrow> page \<Rightarrow> page" where
  "set_innerHTML h s =
     s\<lparr>resultsContainer_innerHTML := h, innerHTML_writes := innerHTML_writes s @ [h]\<rparr>"

definition error_div :: "string \<Rightarrow> string" where
  "error_div message = ''<div class='' @ [dquote] @ ''error-message'' @ [dquote] @ ''>'' @ message @ ''</div>''"

definition displayError :: "string \<Rightarrow> page \<Rightarrow> page" where
  "displayError message s = (set_innerHTML (error_div message) s)\<lparr>exportControls_hidden := True\<rparr>"

subsection \<open>The prompt\<close>

text \<open>
  \<open>buildPrompt\<close> (lines 59 to 116) reads the five values of the form and returns the
  template literal with them filled in, line by line as in the script.
\<close>

definition buildPrompt :: "FormInputs \<Rightarrow> string" where
  "buildPrompt f =
  ''\<newline>'' @
  ''You are a world-class digital marketer and keyword/SEO specialist. Your task is to generate a comprehensive Google Ads keyword analysis based on the user's inputs.\<newline>'' @
  ''\<newline>'' @
  ''Please generate the following based on these inputs:\<newline>'' @
  ''- Service(s): '' @ service f @ ''\<newline>'' @
  ''- Website URL: '' @ url f @ ''\<newline>'' @
  ''- Location(s): '' @ location f @ ''\<newline>'' @
  ''- Campaign Goal: '' @ goal f @ ''\<newline>'' @
  ''- Language(s): '' @ language f @ ''\<newline>'' @
  ''\<newline>'' @
  ''Produce your output in markdown format. Do not include the backticks for the markdown block in your response.\<newline>'' @
  ''\<newline>'' @
  ''Follow this structure precisely:\<newline>'' @
  ''\<newline>'' @
  ''### Keyword Ideas\<newline>'' @
  ''\<newline>'' @
  ''Group keywords into themed ad groups. For each keyword, provide an estimated monthly search volume for the specified location, the 12-month trend (rising/stable/declining), the competition level (Low/Medium/High), and a suggested CPC bid range.\<newline>'' @
  ''\<newline>'' @
  ''#### Ad Group: [Theme Name 1]\<newline>'' @
  ''| Keyword | Monthly Search Volume | Trend (12 mo) | Competition | Suggested CPC |\<newline>'' @
  ''|---|---|---|---|---|\<newline>'' @
  ''| keyword example 1 | ~1,200 | stable | Medium | $1.50 - $3.00 |\<newline>'' @
  ''| keyword example 2 | ~800 | rising | Low | $0.75 - $1.50 |\<newline>'' @
  ''\<newline>'' @
  ''#### Ad Group: [Theme Name 2]\<newline>'' @
  ''| Keyword | Monthly Search Volume | Trend (12 mo) | Competition | Suggested CPC |\<newline>'' @
  ''|---|---|---|---|---|\<newline>'' @
  ''| keyword example 3 | ~2,500 | stable | High | $3.50 - $6.00 |\<newline>'' @
  ''| keyword example 4 | ~500 | declining | Medium | $1.00 - $2.50 |\<newline>'' @
  ''\<newline>'' @
  ''\<newline>'' @
  ''### Priority Keywords\<newline>'' @
  ''\<newline>'' @
  ''List the top 5-10 keywords you would recommend starting with, based on a balance of volume, relevance, and competition.\<newline>'' @
  ''\<newline>'' @
  ''| Priority Keyword | Reason for Prioritization |\<newline>'' @
  ''|---|---|\<newline>'' @
  ''| keyword example 1 | High purchase intent and good volume. |\<newline>'' @
  ''| keyword example 3 | Core service term with high volume. |\<newline>'' @
  ''\<newline>'' @
  ''\<newline>'' @
  ''### Negative Keywords\<newline>'' @
  ''\<newline>'' @
  ''Suggest a list of negative keywords to exclude irrelevant traffic. Use a simple bulleted list.\<newline>'' @
  ''\<newline>'' @
  ''- DIY\<newline>'' @
  ''- free\<newline>'' @
  ''- jobs\<newline>'' @
  ''- course\<newline>''"

subsection \<open>The submit handler\<close>

text \<open>
  \<open>handleFormSubmit\<close> (lines 122 to 156) is asynchronous. Up to its first \<open>await\<close> it
  runs at once (\<open>submit_begin\<close>); the rest (\<open>submit_finish\<close>) runs when the request settles, on the
  page as it is by then. A request settles with an error (\<open>Inl\<close>: the promise rejects)
  or with a response whose \<open>text\<close> is a string or undefined (\<open>Inr\<close>); the test
  \<open>if (markdownContent)\<close> fails for undefined and for the empty string. The converter
  \<open>marked.parse\<close> and the sanitizer \<open>DOMPurify.sanitize\<close> are the parameters \<open>mp\<close> and
  \<open>san\<close>; each returns a string (\<open>Inr\<close>) or throws (\<open>Inl\<close>). The second \<open>await\<close>, on an
  already settled promise, lets no event handler run in between.
\<close>

type_synonym js_error = string

type_synonym 'a js_result = "js_error + 'a"

definition submit_begin :: "page \<Rightarrow> page" where
  "submit_begin s =
     (let s1 = setLoading True s;
          s2 = s1\<lparr>exportControls_hidden := True\<rparr>;
          s3 = (case placeholder_display s2 of
                  None \<Rightarrow> s2
                | Some d \<Rightarrow> s2\<lparr>placeholder_display := Some ''none''\<rparr>);
          s4 = set_innerHTML [] s3;
          prompt = buildPrompt (form s4)
      in s4\<lparr>requests := requests s4 @ [(''gemini-2.5-flash'', prompt)]\<rparr>)"

definition submit_catch :: "js_error \<Rightarrow> page \<Rightarrow> page" where
  "submit_catch e s =
     displayError
       ''An error occurred while generating keywords. Please check the console for details and try again.''
       (s\<lparr>console_errors := console_errors s @ [(''Error generating keywords:'', e)]\<rparr>)"

definition submit_try :: "(string \<Rightarrow> string js_result) \<Rightarrow> (string \<Rightarrow> string js_result) \<Rightarrow>
    string option js_result \<Rightarrow> page \<Rightarrow> page" where
  "submit_try mp san outcome s =
     (case outcome of
        Inl e \<Rightarrow> submit_catch e s
      | Inr None \<Rightarrow> displayError ''Received an empty response from the AI. Please try again.'' s
      | Inr (Some markdownContent) \<Rightarrow>
          (if markdownContent \<noteq> [] then
             (case mp markdownContent of
                Inl e \<Rightarrow> submit_catch e s
              | Inr unsafeHtml \<Rightarrow>
                  (case san unsafeHtml of
                     Inl e \<Rightarrow> submit_catch e s
                   | Inr safeHtml \<Rightarrow> (set_innerHTML safeHtml s)\<lparr>exportControls_hidden := False\<rparr>))
           else displayError ''Received an empty response from the AI. Please try again.'' s))"

definition submit_finish :: "(string \<Rightarrow> string js_result) \<Rightarrow> (string \<Rightarrow> string js_result) \<Rightarrow>
    string option js_result \<Rightarrow> page \<Rightarrow> page" where
  "submit_finish mp san outcome s = setLoading False (submit_try mp san outcome s)"

text \<open>A whole run of the handler, with no other event between the request and its answer.\<close>

definition handleFormSubmit :: "(string \<Rightarrow> string js_result) \<Rightarrow> (string \<Rightarrow> string js_result) \<Rightarrow>
    string option js_result \<Rightarrow> page \<Rightarrow> page" where
  "handleFormSubmit mp san outcome s =
     (let s0 = s\<lparr>defaultPrevented := True\<rparr>
      in if isLoading s0 then s0 else submit_finish mp san outcome (submit_begin s0))"

subsection \<open>Alerts and downloads\<close>

text \<open>
  \<open>alert\<close> and \<open>downloadFile\<close> (lines 164 to 174) leave the page as it is; what the user
  is shown or given is appended to the logs.
\<close>

definition alert :: "string \<Rightarrow> page \<Rightarrow> page" where
  "alert message s = s\<lparr>alerts := alerts s @ [message]\<rparr>"

definition downloadFile :: "string \<Rightarrow> string \<Rightarrow> string \<Rightarrow> page \<Rightarrow> page" where
  "downloadFile content fileName mimeType s =
     s\<lparr>downloads := downloads s @ [(content, fileName, mimeType)]\<rparr>"

subsection \<open>The CSV export\<close>

text \<open>
  \<open>exportKeywordsToCSV\<close> (lines 179 to 221). The loop over the \<open>h4\<close> headings carries
  the two variables of the script, \<open>headers\<close> and \<open>data\<close>, as a pair. \<open>doc\<close> is the list of child nodes of the results container, which
  is taken to lie outside any \<open>tbody\<close> of the page.
\<close>

type_synonym csv_acc = "string list \<times> string list list"

definition push_row :: "(node \<Rightarrow> string) \<Rightarrow> node \<Rightarrow> string list list \<Rightarrow> string list list" where
  "push_row it row data =
     (let rowData = cell_texts it ''TD'' row
      in if length rowData > 0 then data @ [rowData] else data)"

definition csv_table :: "(node \<Rightarrow> string) \<Rightarrow> bool \<Rightarrow> node \<Rightarrow> csv_acc \<Rightarrow> csv_acc" where
  "csv_table it b table acc =
     (let acc1 = (if length (fst acc) = 0
                  then (let headers = cell_texts it ''TH'' table in (headers, snd acc @ [headers]))
                  else acc)
      in (fst acc1, fold (push_row it) (tbody_tr b table) (snd acc1)))"

definition csv_heading :: "(node \<Rightarrow> string) \<Rightarrow> hit \<Rightarrow> csv_acc \<Rightarrow> csv_acc" where
  "csv_heading it h acc =
     (case h of (b, heading, sibling) \<Rightarrow>
        if prefix ''Ad Group:'' (textContent heading) then
          (case sibling of
             None \<Rightarrow> acc
           | Some table \<Rightarrow> if tagName table = ''TABLE'' then csv_table it b table acc else acc)
        else acc)"

definition csv_data :: "(node \<Rightarrow> string) \<Rightarrow> node list \<Rightarrow> string list list" where
  "csv_data it doc = snd (fold (csv_heading it) (querySelectorAll ''H4'' False doc) ([], []))"

definition escape_cell :: "string \<Rightarrow> string" where
  "escape_cell cell =
     (let newCell = concat (map (\<lambda>c. if c = dquote then [dquote, dquote] else [c]) cell)
      in if list_ex (\<lambda>c. c = dquote \<or> c = comma \<or> c = newline) newCell
         then [dquote] @ newCell @ [dquote]
         else newCell)"

definition csv_content :: "string list list \<Rightarrow> string" where
  "csv_content data = join [newline] (map (\<lambda>row. join [comma] (map escape_cell row)) data)"

definition exportKeywordsToCSV :: "(node \<Rightarrow> string) \<Rightarrow> node list \<Rightarrow> page \<Rightarrow> page" where
  "exportKeywordsToCSV it doc s =
     (let data = csv_data it doc
      in if length data \<le> 1 then alert ''No keyword data found to export.'' s
         else downloadFile (csv_content data) ''keyword_ideas.csv'' ''text/csv;charset=utf-8;'' s)"

subsection \<open>The JSON export\<close>

text \<open>
  \<open>exportPriorityKeywordsToJSON\<close> (lines 226 to 258).
  An object with string values is the list of its own properties in the order in which
  the language enumerates them, and so in which \<open>JSON.stringify\<close> writes them: first the
  keys that are array indices, in ascending numeric order, then the other keys in the
  order they were created. An array index is the decimal numeral, without leading zeros,
  of an integer from 0 to 4294967294.
\<close>

type_synonym js_object = "(string \<times> string) list"

definition is_digit :: "char \<Rightarrow> bool" where
  "is_digit c = (48 \<le> (of_char c :: int) \<and> (of_char c :: int) \<le> 57)"

definition index_value :: "string \<Rightarrow> int" where
  "index_value k = foldl (\<lambda>n c. 10 * n + ((of_char c :: int) - 48)) 0 k"

definition is_array_index :: "string \<Rightarrow> bool" where
  "is_array_index k =
     (k \<noteq> [] \<and> list_all is_digit k \<and> (k = ''0'' \<or> hd k \<noteq> CHR ''0'')
      \<and> index_value k \<le> 4294967294)"

text \<open>
  Assigning to a key: a property that exists keeps its place and takes the new value; a
  new array index is placed among the array indices, before the first larger one; any
  other new key is placed last.
\<close>

definition set_value :: "string \<Rightarrow> string \<Rightarrow> js_object \<Rightarrow> js_object" where
  "set_value k v obj = map (\<lambda>p. if fst p = k then (k, v) else p) obj"

fun insert_index :: "string \<Rightarrow> string \<Rightarrow> js_object \<Rightarrow> js_object" where
  "insert_index k v [] = [(k, v)]"
| "insert_index k v (p # ps) =
     (if is_array_index (fst p) \<and> index_value (fst p) < index_value k
      then p # insert_index k v ps
      else (k, v) # p # ps)"

definition assign :: "string \<Rightarrow> string \<Rightarrow> js_object \<Rightarrow> js_object" where
  "assign k v obj =
     (if k \<in> set (map fst obj) then set_value k v obj
      else if is_array_index k then insert_index k v obj
      else obj @ [(k, v)])"

text \<open>
  \<open>rowData[header] = value\<close> on an object literal: assigning a string to \<open>__proto__\<close>
  reaches the setter of \<open>Object.prototype\<close>, which ignores it; every other key becomes or
  stays an own property. \<open>JSON.stringify(data, null, 2)\<close> is the parameter \<open>stringify\<close>.
\<close>

definition set_property :: "string \<Rightarrow> string \<Rightarrow> js_object \<Rightarrow> js_object" where
  "set_property k v obj = (if k = ''__proto__'' then obj else assign k v obj)"

definition row_object :: "(node \<Rightarrow> string) \<Rightarrow> string list \<Rightarrow> node list \<Rightarrow> js_object" where
  "row_object it headers cells =
     fold (\<lambda>index rowData. set_property (headers ! index) (trim (it (cells ! index))) rowData)
       [0 ..< length headers] []"

definition json_row :: "(node \<Rightarrow> string) \<Rightarrow> string list \<Rightarrow> node \<Rightarrow> js_object list \<Rightarrow> js_object list" where
  "json_row it headers row data =
     (let cells = cell_nodes ''TD'' row
      in if length cells = length headers then data @ [row_object it headers cells] else data)"

definition json_data :: "(node \<Rightarrow> string) \<Rightarrow> hit \<Rightarrow> js_object list" where
  "json_data it h =
     (case h of (b, heading, sibling) \<Rightarrow>
        (case sibling of
           None \<Rightarrow> []
         | Some table \<Rightarrow>
             if tagName table = ''TABLE''
             then (let headers = cell_texts it ''TH'' table
                   in fold (json_row it headers) (tbody_tr b table) [])
             else []))"

definition priorityHeading :: "node list \<Rightarrow> hit option" where
  "priorityHeading doc =
     find (\<lambda>h. trim (textContent (fst (snd h))) = ''Priority Keywords'')
       (querySelectorAll ''H3'' False doc)"

definition exportPriorityKeywordsToJSON ::
    "(node \<Rightarrow> string) \<Rightarrow> (js_object list \<Rightarrow> string) \<Rightarrow> node list \<Rightarrow> page \<Rightarrow> page" where
  "exportPriorityKeywordsToJSON it stringify doc s =
     (case priorityHeading doc of
        None \<Rightarrow> alert ''No priority keywords found to export.'' s
      | Some h \<Rightarrow>
          (let data = json_data it h
           in if length data = 0 then alert ''No priority keywords found to export.'' s
              else downloadFile (stringify data) ''priority_keywords.json''
                     ''application/json;charset=utf-8;'' s))"

subsection \<open>A reader for the exported CSV\<close>

text \<open>
  The reader of the dialect that \<open>csv_content\<close> writes: a comma ends a field, a line feed
  ends a record, and a double quote opens a quoted part, in which two double quotes
  stand for one and a single one closes the part. \<open>csv_read q text\<close> reads \<open>text\<close>,
  inside a quoted part when \<open>q\<close> holds; the first field of its first record is the
  one being read.
\<close>

definition add_char :: "char \<Rightarrow> string list list \<Rightarrow> string list list" where
  "add_char c rows =
     (case rows of
        [] \<Rightarrow> [[[c]]]
      | r # rs \<Rightarrow> (case r of [] \<Rightarrow> [[c]] # rs | f # fs \<Rightarrow> ((c # f) # fs) # rs))"

definition new_field :: "string list list \<Rightarrow> string list list" where
  "new_field rows = (case rows of [] \<Rightarrow> [[[], []]] | r # rs \<Rightarrow> ([] # r) # rs)"

fun csv_read :: "bool \<Rightarrow> string \<Rightarrow> string list list" where
  "csv_read q [] = [[[]]]"
| "csv_read q (c # cs) =
     (if q then
        (if c = dquote then
           (case cs of
              [] \<Rightarrow> csv_read False cs
            | d # ds \<Rightarrow> if d = dquote then add_char dquote (csv_read True ds)
                        else csv_read False cs)
         else add_char c (csv_read True cs))
      else
        (if c = dquote then csv_read True cs
         else if c = comma then new_field (csv_read False cs)
         else if c = newline then [[]] # csv_read False cs
         else add_char c (csv_read False cs)))"

subsection \<open>Sample pages and documents\<close>

text \<open>The page as it is loaded, with the form of the specification's scenario filled in.\<close>

definition page0 :: page where
  "page0 =
     \<lparr>isLoading = False,
      form = \<lparr>service = ''plumbing'', url = ''example.com'', location = ''Austin'',
              goal = ''Leads'', language = ''English''\<rparr>,
      generateBtn_disabled = False,
      spinner_hidden = True,
      btnText_textContent = ''Generate Keywords'',
      resultsContainer_innerHTML = [],
      exportControls_hidden = True,
      placeholder_display = Some [],
      defaultPrevented = False,
      innerHTML_writes = [],
      requests = [],
      console_errors = [],
      alerts = [],
      downloads = []\<rparr>"

text \<open>A table as the markdown converter renders it: a head row of \<open>th\<close>, body rows of \<open>td\<close>.\<close>

definition table_node :: "string list \<Rightarrow> string list list \<Rightarrow> node" where
  "table_node hs rows =
     Element ''TABLE''
       [Element ''THEAD'' [Element ''TR'' (map (\<lambda>h. Element ''TH'' [Text h]) hs)],
        Element ''TBODY'' (map (\<lambda>r. Element ''TR'' (map (\<lambda>c. Element ''TD'' [Text c]) r)) rows)]"

definition heading_node :: "string \<Rightarrow> string \<Rightarrow> node" where
  "heading_node t s = Element t [Text s]"

text \<open>The scenario of the specification: one ad group with two rows, two priority keywords.\<close>

definition doc_scenario :: "node list" where
  "doc_scenario =
     [heading_node ''H3'' ''Keyword Ideas'',
      heading_node ''H4'' ''Ad Group: Emergency'',
      table_node [''Keyword'', ''Competition''] [[''plumber, 24h'', ''High''], [''leak repair'', ''Low'']],
      heading_node ''H3'' ''Priority Keywords'',
      table_node [''Priority Keyword'', ''Reason''] [[''leak repair'', ''intent''], [''plumber'', ''volume'']]]"

text \<open>
  Two ad groups, the first with a table written as HTML without header cells:
  the answer
  \<^verbatim>\<open>#### Ad Group: A\<close>, \<^verbatim>\<open><table><tbody><tr><td>x</td></tr></tbody></table>\<close>,
  \<^verbatim>\<open>#### Ad Group: B\<close>, \<^verbatim>\<open>| K |\<close>, \<^verbatim>\<open>|---|\<close>, \<^verbatim>\<open>| y |\<close>
  renders to this document.
\<close>

definition doc_headerless :: "node list" where
  "doc_headerless =
     [heading_node ''H4'' ''Ad Group: A'',
      Element ''TABLE'' [Element ''TBODY'' [Element ''TR'' [Element ''TD'' [Text ''x'']]]],
      heading_node ''H4'' ''Ad Group: B'',
      table_node [''K''] [[''y'']]]"

text \<open>The headings of the scenario one level off: \<open>Ad Group:\<close> as \<open>h3\<close>, the priority table under \<open>h4\<close>.\<close>

definition doc_levels :: "node list" where
  "doc_levels =
     [heading_node ''H3'' ''Ad Group: Emergency'',
      table_node [''Keyword''] [[''plumber'']],
      heading_node ''H4'' ''Priority Keywords'',
      table_node [''Priority Keyword''] [[''plumber'']]]"

text \<open>
  The scenario with two more headings whose texts match, at the levels \<open>h5\<close> and \<open>h2\<close>, each
  followed by a table.
\<close>

definition doc_mixed :: "node list" where
  "doc_mixed =
     doc_scenario @
     [heading_node ''H5'' ''Ad Group: Extra'',
      table_node [''Keyword'', ''Competition''] [[''drain cleaning'', ''Low'']],
      heading_node ''H2'' ''Priority Keywords'',
      table_node [''Priority Keyword'', ''Reason''] [[''drain cleaning'', ''cheap'']]]"

text \<open>A priority table whose second body row has one cell too few.\<close>

definition doc_ragged :: "node list" where
  "doc_ragged =
     [heading_node ''H3'' ''Priority Keywords'',
      table_node [''Priority Keyword'', ''Reason''] [[''plumber'', ''volume''], [''leak repair'']]]"

subsection \<open>Names used in the properties\<close>

text \<open>The two messages that the submit handler passes to \<open>displayError\<close>.\<close>

definition empty_message :: string where
  "empty_message = ''Received an empty response from the AI. Please try again.''"

definition failure_message :: string where
  "failure_message =
     ''An error occurred while generating keywords. Please check the console for details and try again.''"

text \<open>A converter and a sanitizer to run the handler with: one wraps a paragraph, the other drops \<open>!\<close>.\<close>

definition sample_parse :: "string \<Rightarrow> string js_result" where
  "sample_parse md = Inr (''<p>'' @ md @ ''</p>'')"

definition sample_sanitize :: "string \<Rightarrow> string js_result" where
  "sample_sanitize html = Inr (filter (\<lambda>c. c \<noteq> CHR ''!'') html)"

text \<open>What reading a cell in front of the records \<open>rows\<close> gives: its characters, one by one.\<close>

definition add_chars :: "string \<Rightarrow> string list list \<Rightarrow> string list list" where
  "add_chars cell rows = foldr add_char cell rows"

text \<open>The characters that make the export quote a cell, and the doubling of quotes.\<close>

definition special :: "char \<Rightarrow> bool" where
  "special c = (c = dquote \<or> c = comma \<or> c = newline)"

definition double_quotes :: "string \<Rightarrow> string" where
  "double_quotes cell = concat (map (\<lambda>c. if c = dquote then [dquote, dquote] else [c]) cell)"

text \<open>Rows with a comma, quotes, a line feed, a carriage return and an empty cell.\<close>

definition sample_rows :: "string list list" where
  "sample_rows =
     [[''Keyword'', ''Note''],
      [''plumber, 24h'', [CHR ''a'', dquote, CHR ''b'', dquote]],
      [[CHR ''x'', newline, CHR ''y''], []],
      [[dquote], [CHR ''r'', CHR 0x0D, CHR ''s'']]]"

text \<open>One record of the exported text.\<close>

definition csv_line :: "string list \<Rightarrow> string" where
  "csv_line row = join [comma] (map escape_cell row)"

text \<open>
  The tables that the CSV export reads, in document order: the element siblings, when
  they are tables, that follow the \<open>h4\<close> elements whose text starts with \<open>Ad Group:\<close>.
  Each comes with the flag of its heading. \<open>body_rows\<close> are the rows that one table adds.
\<close>

definition ad_group_table :: "hit \<Rightarrow> (bool \<times> node) list" where
  "ad_group_table h =
     (case h of (b, heading, sibling) \<Rightarrow>
        (case sibling of
           None \<Rightarrow> []
         | Some table \<Rightarrow>
             if prefix ''Ad Group:'' (textContent heading) \<and> tagName table = ''TABLE''
             then [(b, table)] else []))"

definition ad_group_tables :: "node list \<Rightarrow> (bool \<times> node) list" where
  "ad_group_tables doc = concat (map ad_group_table (querySelectorAll ''H4'' False doc))"

definition body_rows :: "(node \<Rightarrow> string) \<Rightarrow> bool \<times> node \<Rightarrow> string list list" where
  "body_rows it bt =
     filter (\<lambda>rowData. rowData \<noteq> []) (map (cell_texts it ''TD'') (tbody_tr (fst bt) (snd bt)))"

text \<open>An ad group whose table has a head and no body rows.\<close>

definition doc_header_only :: "node list" where
  "doc_header_only =
     [heading_node ''H4'' ''Ad Group: Emergency'',
      table_node [''Keyword'', ''Competition''] []]"

text \<open>A priority table in which every body row has one cell too few.\<close>

definition doc_mismatch :: "node list" where
  "doc_mismatch =
     [heading_node ''H3'' ''Priority Keywords'',
      table_node [''Priority Keyword'', ''Reason''] [[''plumber''], [''leak repair'']]]"

text \<open>
  The order of the keys of an object: \<open>key_before j k\<close> says that \<open>k\<close> may directly follow
  \<open>j\<close>, and \<open>key_order\<close> that each key may follow the one before it.
\<close>

definition key_before :: "string \<Rightarrow> string \<Rightarrow> bool" where
  "key_before j k =
     (if is_array_index j
      then (if is_array_index k then index_value j \<le> index_value k else True)
      else \<not> is_array_index k)"

fun key_order :: "string list \<Rightarrow> bool" where
  "key_order [] = True"
| "key_order [k] = True"
| "key_order (j # k # ks) = (key_before j k \<and> key_order (k # ks))"

text \<open>A priority table whose headers are \<open>b\<close>, \<open>1\<close>, \<open>a\<close>, \<open>0\<close>: two of them are array indices.\<close>

definition doc_indexed :: "node list" where
  "doc_indexed =
     [heading_node ''H3'' ''Priority Keywords'',
      table_node [''b'', ''1'', ''a'', ''0''] [[''w'', ''x'', ''y'', ''z'']]]"

text \<open>A priority table with a header that occurs twice and a header \<open>__proto__\<close>.\<close>

definition doc_repeated :: "node list" where
  "doc_repeated =
     [heading_node ''H3'' ''Priority Keywords'',
      table_node [''k'', ''__proto__'', ''k''] [[''first'', ''p'', ''second'']]]"

text \<open>A stand-in for \<open>JSON.stringify\<close> that writes each key and value in the order of the object.\<close>

definition sample_stringify :: "js_object list \<Rightarrow> string" where
  "sample_stringify data =
     concat (map (\<lambda>obj. ''{'' @ concat (map (\<lambda>p. fst p @ '':'' @ snd p @ '';'') obj) @ ''}'') data)"

section \<open>Properties\<close>

subsection \<open>The prompt contains its inputs and headings\<close>

lemma sublist_skip: "sublist x zs \<Longrightarrow> sublist x (ys @ zs)"
proof -
  assume "sublist x zs"
  then obtain ps ss where "zs = ps @ x @ ss"
    by (auto simp: sublist_def)
  then have "ys @ zs = (ys @ ps) @ x @ ss"
    by simp
  then show ?thesis
    unfolding sublist_def by blast
qed

lemma sublist_here: "sublist x ys \<Longrightarrow> sublist x (ys @ zs)"
proof -
  assume "sublist x ys"
  then obtain ps ss where "ys = ps @ x @ ss"
    by (auto simp: sublist_def)
  then have "ys @ zs = ps @ x @ (ss @ zs)"
    by simp
  then show ?thesis
    unfolding sublist_def by blast
qed

lemma heading_line_1: "sublist ''Keyword Ideas'' ''### Keyword Ideas\<newline>''"
  by (simp add: sublist_Cons_right)

lemma heading_line_2: "sublist ''Priority Keywords'' ''### Priority Keywords\<newline>''"
  by (simp add: sublist_Cons_right)

lemma heading_line_3: "sublist ''Negative Keywords'' ''### Negative Keywords\<newline>''"
  by (simp add: sublist_Cons_right)

lemma prompt_service: "sublist (service f) (buildPrompt f)"
  unfolding buildPrompt_def by (fast intro: sublist_skip sublist_here)

lemma prompt_url: "sublist (url f) (buildPrompt f)"
  unfolding buildPrompt_def by (fast intro: sublist_skip sublist_here)

lemma prompt_location: "sublist (location f) (buildPrompt f)"
  unfolding buildPrompt_def by (fast intro: sublist_skip sublist_here)

lemma prompt_goal: "sublist (goal f) (buildPrompt f)"
  unfolding buildPrompt_def by (fast intro: sublist_skip sublist_here)

lemma prompt_language: "sublist (language f) (buildPrompt f)"
  unfolding buildPrompt_def by (fast intro: sublist_skip sublist_here)

lemma prompt_heading_1: "sublist ''Keyword Ideas'' (buildPrompt f)"
  unfolding buildPrompt_def by (fast intro: sublist_skip sublist_here heading_line_1)

lemma prompt_heading_2: "sublist ''Priority Keywords'' (buildPrompt f)"
  unfolding buildPrompt_def by (fast intro: sublist_skip sublist_here heading_line_2)

lemma prompt_heading_3: "sublist ''Negative Keywords'' (buildPrompt f)"
  unfolding buildPrompt_def by (fast intro: sublist_skip sublist_here heading_line_3)

text \<open>
  C6. Whatever the five form values are, each of them occurs verbatim (as a contiguous
  piece) in the prompt that \<open>buildPrompt\<close> returns, and so do the three section headings
  \<open>Keyword Ideas\<close>, \<open>Priority Keywords\<close> and \<open>Negative Keywords\<close>.
\<close>

theorem buildPrompt_contains:
  "sublist (service f) (buildPrompt f) \<and> sublist (url f) (buildPrompt f)
   \<and> sublist (location f) (buildPrompt f) \<and> sublist (goal f) (buildPrompt f)
   \<and> sublist (language f) (buildPrompt f)
   \<and> sublist ''Keyword Ideas'' (buildPrompt f)
   \<and> sublist ''Priority Keywords'' (buildPrompt f)
   \<and> sublist ''Negative Keywords'' (buildPrompt f)"
  using prompt_service prompt_url prompt_location prompt_goal prompt_language
    prompt_heading_1 prompt_heading_2 prompt_heading_3
  by blast

text \<open>The same for the form of the scenario.\<close>

theorem buildPrompt_contains_scenario:
  "sublist ''plumbing'' (buildPrompt (form page0)) \<and> sublist ''example.com'' (buildPrompt (form page0))
   \<and> sublist ''Austin'' (buildPrompt (form page0)) \<and> sublist ''Leads'' (buildPrompt (form page0))
   \<and> sublist ''English'' (buildPrompt (form page0))
   \<and> sublist ''Keyword Ideas'' (buildPrompt (form page0))
   \<and> sublist ''Priority Keywords'' (buildPrompt (form page0))
   \<and> sublist ''Negative Keywords'' (buildPrompt (form page0))"
  using buildPrompt_contains [of "form page0"] by (simp add: page0_def)

subsection \<open>The submit handler\<close>

lemma submit_begin_writes:
  "innerHTML_writes (submit_begin s) = innerHTML_writes s @ [[]]"
  by (simp add: submit_begin_def setLoading_def set_innerHTML_def Let_def split: option.split)

lemma submit_begin_loading: "isLoading (submit_begin s)"
  by (simp add: submit_begin_def setLoading_def set_innerHTML_def Let_def split: option.split)

lemma submit_catch_writes:
  "innerHTML_writes (submit_catch e s) = innerHTML_writes s @ [error_div failure_message]
   \<and> resultsContainer_innerHTML (submit_catch e s) = error_div failure_message
   \<and> exportControls_hidden (submit_catch e s)
   \<and> console_errors (submit_catch e s) = console_errors s @ [(''Error generating keywords:'', e)]"
  by (simp add: submit_catch_def displayError_def set_innerHTML_def failure_message_def)

lemma displayError_writes:
  "innerHTML_writes (displayError m s) = innerHTML_writes s @ [error_div m]
   \<and> resultsContainer_innerHTML (displayError m s) = error_div m
   \<and> exportControls_hidden (displayError m s)
   \<and> console_errors (displayError m s) = console_errors s"
  by (simp add: displayError_def set_innerHTML_def)

lemma setLoading_keeps:
  "innerHTML_writes (setLoading b s) = innerHTML_writes s
   \<and> resultsContainer_innerHTML (setLoading b s) = resultsContainer_innerHTML s
   \<and> exportControls_hidden (setLoading b s) = exportControls_hidden s
   \<and> console_errors (setLoading b s) = console_errors s
   \<and> requests (setLoading b s) = requests s"
  by (simp add: setLoading_def)

lemma submit_try_success:
  assumes "outcome = Inr (Some md)" and "md \<noteq> []" and "mp md = Inr unsafeHtml"
    and "san unsafeHtml = Inr safeHtml"
  shows "submit_try mp san outcome s = (set_innerHTML safeHtml s)\<lparr>exportControls_hidden := False\<rparr>"
  using assms by (simp add: submit_try_def)

lemma submit_try_writes:
  "\<exists>w. innerHTML_writes (submit_try mp san outcome s) = innerHTML_writes s @ [w]
       \<and> resultsContainer_innerHTML (submit_try mp san outcome s) = w
       \<and> (w = error_div empty_message \<or> w = error_div failure_message
          \<or> (\<exists>md unsafeHtml. outcome = Inr (Some md) \<and> md \<noteq> [] \<and> mp md = Inr unsafeHtml
                \<and> san unsafeHtml = Inr w))"
proof (cases outcome)
  case (Inl e)
  then show ?thesis
    using submit_catch_writes [of e s] by (simp add: submit_try_def)
next
  case (Inr content)
  show ?thesis
  proof (cases "content \<noteq> None \<and> content \<noteq> Some []")
    case False
    then show ?thesis
      using Inr displayError_writes [of empty_message s]
      by (auto simp add: submit_try_def empty_message_def)
  next
    case True
    then obtain md where md: "content = Some md" "md \<noteq> []"
      by auto
    show ?thesis
    proof (cases "mp md")
      case (Inl e)
      then show ?thesis
        using Inr md submit_catch_writes [of e s] by (simp add: submit_try_def)
    next
      case unsafe: (Inr unsafeHtml)
      show ?thesis
      proof (cases "san unsafeHtml")
        case (Inl e)
        then show ?thesis
          using Inr md unsafe submit_catch_writes [of e s] by (simp add: submit_try_def)
      next
        case safe: (Inr safeHtml)
        then show ?thesis
          using Inr md unsafe by (simp add: submit_try_def set_innerHTML_def)
      qed
    qed
  qed
qed

text \<open>
  C1. In a run of the submit handler that starts on an idle page, the results container
  is assigned exactly twice: the empty string, then one string \<open>w\<close>. That string is one
  of the two fixed error messages, or it is what the sanitizer returned for the HTML that
  the converter returned for the model's markdown; nothing else is ever assigned. When
  the model returns non-empty markdown and both steps succeed, the sanitizer's output is
  what is inserted, and the export controls are shown.
\<close>

theorem render_only_sanitized:
  assumes "\<not> isLoading s"
  shows "(\<exists>w. innerHTML_writes (handleFormSubmit mp san outcome s) = innerHTML_writes s @ [[], w]
       \<and> resultsContainer_innerHTML (handleFormSubmit mp san outcome s) = w
       \<and> (w = error_div empty_message \<or> w = error_div failure_message
          \<or> (\<exists>md unsafeHtml. outcome = Inr (Some md) \<and> md \<noteq> [] \<and> mp md = Inr unsafeHtml
                \<and> san unsafeHtml = Inr w)))
     \<and> (\<forall>md unsafeHtml safeHtml.
           outcome = Inr (Some md) \<and> md \<noteq> [] \<and> mp md = Inr unsafeHtml \<and> san unsafeHtml = Inr safeHtml
           \<longrightarrow> innerHTML_writes (handleFormSubmit mp san outcome s) = innerHTML_writes s @ [[], safeHtml]
               \<and> resultsContainer_innerHTML (handleFormSubmit mp san outcome s) = safeHtml
               \<and> \<not> exportControls_hidden (handleFormSubmit mp san outcome s))"
proof -
  let ?s1 = "submit_begin (s\<lparr>defaultPrevented := True\<rparr>)"
  have run: "handleFormSubmit mp san outcome s = setLoading False (submit_try mp san outcome ?s1)"
    using assms by (simp add: handleFormSubmit_def submit_finish_def)
  have started: "innerHTML_writes ?s1 = innerHTML_writes s @ [[]]"
    by (simp add: submit_begin_writes)
  obtain w where w: "innerHTML_writes (submit_try mp san outcome ?s1) = innerHTML_writes ?s1 @ [w]"
      "resultsContainer_innerHTML (submit_try mp san outcome ?s1) = w"
      "w = error_div empty_message \<or> w = error_div failure_message
        \<or> (\<exists>md unsafeHtml. outcome = Inr (Some md) \<and> md \<noteq> [] \<and> mp md = Inr unsafeHtml
              \<and> san unsafeHtml = Inr w)"
    using submit_try_writes [of mp san outcome ?s1] by blast
  have always: "\<exists>w. innerHTML_writes (handleFormSubmit mp san outcome s) = innerHTML_writes s @ [[], w]
       \<and> resultsContainer_innerHTML (handleFormSubmit mp san outcome s) = w
       \<and> (w = error_div empty_message \<or> w = error_div failure_message
          \<or> (\<exists>md unsafeHtml. outcome = Inr (Some md) \<and> md \<noteq> [] \<and> mp md = Inr unsafeHtml
                \<and> san unsafeHtml = Inr w))"
    using w started by (simp add: run setLoading_keeps)
  have success: "innerHTML_writes (handleFormSubmit mp san outcome s) = innerHTML_writes s @ [[], safeHtml]
       \<and> resultsContainer_innerHTML (handleFormSubmit mp san outcome s) = safeHtml
       \<and> \<not> exportControls_hidden (handleFormSubmit mp san outcome s)"
    if "outcome = Inr (Some md) \<and> md \<noteq> [] \<and> mp md = Inr unsafeHtml \<and> san unsafeHtml = Inr safeHtml"
    for md unsafeHtml safeHtml
  proof -
    have "submit_try mp san outcome ?s1 = (set_innerHTML safeHtml ?s1)\<lparr>exportControls_hidden := False\<rparr>"
      using that submit_try_success [of outcome md mp unsafeHtml san safeHtml ?s1] by blast
    then show ?thesis
      using started by (simp add: run setLoading_keeps set_innerHTML_def)
  qed
  show ?thesis
    using always success by blast
qed

text \<open>A run on the sample page: the sanitizer's output reaches the container, not the converter's.\<close>

theorem render_only_sanitized_sample:
  "\<not> isLoading page0
   \<and> innerHTML_writes (handleFormSubmit sample_parse sample_sanitize (Inr (Some ''Hi!'')) page0)
       = [[], ''<p>Hi</p>'']
   \<and> resultsContainer_innerHTML
        (handleFormSubmit sample_parse sample_sanitize (Inr (Some ''Hi!'')) page0) = ''<p>Hi</p>''
   \<and> \<not> exportControls_hidden (handleFormSubmit sample_parse sample_sanitize (Inr (Some ''Hi!'')) page0)"
proof -
  have idle: "\<not> isLoading page0"
    by (simp add: page0_def)
  have given: "Inr (Some ''Hi!'') = (Inr (Some ''Hi!'') :: string option js_result) \<and> ''Hi!'' \<noteq> []
      \<and> sample_parse ''Hi!'' = Inr ''<p>Hi!</p>'' \<and> sample_sanitize ''<p>Hi!</p>'' = Inr ''<p>Hi</p>''"
    by (simp add: sample_parse_def sample_sanitize_def)
  have "innerHTML_writes page0 = []"
    by (simp add: page0_def)
  then show ?thesis
    using idle given render_only_sanitized [OF idle, of sample_parse sample_sanitize "Inr (Some ''Hi!'')"]
    by simp
qed

text \<open>
  C7, as the specification states it, fails: an empty response and a rejected request
  leave different messages in the results container.
\<close>

theorem single_failure_message_refuted:
  "resultsContainer_innerHTML (handleFormSubmit sample_parse sample_sanitize (Inr None) page0)
   \<noteq> resultsContainer_innerHTML (handleFormSubmit sample_parse sample_sanitize (Inl ''503'') page0)"
  by (simp add: handleFormSubmit_def submit_finish_def submit_try_def submit_catch_def
      submit_begin_def displayError_def set_innerHTML_def setLoading_def error_div_def
      page0_def Let_def)

text \<open>
  C7, amended. A response without text or with empty text, and a thrown error, each
  replace the results area with an error element and hide the export controls, but with
  two different messages: \<open>empty_message\<close> for the empty response and \<open>failure_message\<close>
  for the thrown error; only the thrown error is logged to the console.
\<close>

theorem failure_messages:
  assumes "\<not> isLoading s"
  shows "resultsContainer_innerHTML (handleFormSubmit mp san (Inr None) s) = error_div empty_message
     \<and> resultsContainer_innerHTML (handleFormSubmit mp san (Inr (Some [])) s) = error_div empty_message
     \<and> resultsContainer_innerHTML (handleFormSubmit mp san (Inl e) s) = error_div failure_message
     \<and> exportControls_hidden (handleFormSubmit mp san (Inr None) s)
     \<and> exportControls_hidden (handleFormSubmit mp san (Inr (Some [])) s)
     \<and> exportControls_hidden (handleFormSubmit mp san (Inl e) s)
     \<and> console_errors (handleFormSubmit mp san (Inr None) s) = console_errors s
     \<and> console_errors (handleFormSubmit mp san (Inr (Some [])) s) = console_errors s
     \<and> console_errors (handleFormSubmit mp san (Inl e) s)
         = console_errors s @ [(''Error generating keywords:'', e)]
     \<and> empty_message \<noteq> failure_message"
proof -
  let ?s1 = "submit_begin (s\<lparr>defaultPrevented := True\<rparr>)"
  have run: "handleFormSubmit mp san outcome s = setLoading False (submit_try mp san outcome ?s1)"
    for outcome
    using assms by (simp add: handleFormSubmit_def submit_finish_def)
  have log: "console_errors ?s1 = console_errors s"
    by (simp add: submit_begin_def setLoading_def set_innerHTML_def Let_def split: option.split)
  have none: "submit_try mp san (Inr None) ?s1 = displayError empty_message ?s1"
    by (simp add: submit_try_def empty_message_def)
  have blank: "submit_try mp san (Inr (Some [])) ?s1 = displayError empty_message ?s1"
    by (simp add: submit_try_def empty_message_def)
  have thrown: "submit_try mp san (Inl e) ?s1 = submit_catch e ?s1"
    by (simp add: submit_try_def)
  have "empty_message \<noteq> failure_message"
    by (simp add: empty_message_def failure_message_def)
  then show ?thesis
    using displayError_writes [of empty_message ?s1] submit_catch_writes [of e ?s1] log
    by (simp add: run none blank thrown setLoading_keeps)
qed

text \<open>Both failures on the sample page.\<close>

theorem failure_messages_sample:
  "\<not> isLoading page0
   \<and> resultsContainer_innerHTML (handleFormSubmit sample_parse sample_sanitize (Inr None) page0)
       = error_div ''Received an empty response from the AI. Please try again.''
   \<and> resultsContainer_innerHTML (handleFormSubmit sample_parse sample_sanitize (Inl ''503'') page0)
       = error_div ''An error occurred while generating keywords. Please check the console for details and try again.''
   \<and> console_errors (handleFormSubmit sample_parse sample_sanitize (Inr None) page0) = []
   \<and> console_errors (handleFormSubmit sample_parse sample_sanitize (Inl ''503'') page0)
       = [(''Error generating keywords:'', ''503'')]"
proof -
  have idle: "\<not> isLoading page0"
    by (simp add: page0_def)
  have "console_errors page0 = []"
    by (simp add: page0_def)
  then show ?thesis
    using idle failure_messages [OF idle, of sample_parse sample_sanitize "''503''"]
    by (simp add: empty_message_def failure_message_def)
qed

text \<open>
  C8. A submit event that arrives while \<open>isLoading\<close> is set only has its default action
  prevented: the handler returns the page unchanged otherwise, so no request is issued
  and the results area, the export controls and the loading indicators stay as they are.
\<close>

theorem submit_while_loading_dropped:
  assumes "isLoading s"
  shows "handleFormSubmit mp san outcome s = s\<lparr>defaultPrevented := True\<rparr>
     \<and> requests (handleFormSubmit mp san outcome s) = requests s
     \<and> innerHTML_writes (handleFormSubmit mp san outcome s) = innerHTML_writes s
     \<and> resultsContainer_innerHTML (handleFormSubmit mp san outcome s) = resultsContainer_innerHTML s
     \<and> exportControls_hidden (handleFormSubmit mp san outcome s) = exportControls_hidden s
     \<and> isLoading (handleFormSubmit mp san outcome s)
     \<and> generateBtn_disabled (handleFormSubmit mp san outcome s) = generateBtn_disabled s
     \<and> spinner_hidden (handleFormSubmit mp san outcome s) = spinner_hidden s
     \<and> btnText_textContent (handleFormSubmit mp san outcome s) = btnText_textContent s
     \<and> placeholder_display (handleFormSubmit mp san outcome s) = placeholder_display s"
  using assms by (simp add: handleFormSubmit_def)

text \<open>A second submit between the request and its answer: still one request.\<close>

theorem submit_while_loading_sample:
  "isLoading (submit_begin page0)
   \<and> handleFormSubmit sample_parse sample_sanitize (Inr (Some ''Hi!'')) (submit_begin page0)
       = (submit_begin page0)\<lparr>defaultPrevented := True\<rparr>
   \<and> length (requests (handleFormSubmit sample_parse sample_sanitize (Inr (Some ''Hi!''))
        (submit_begin page0))) = 1"
proof -
  have busy: "isLoading (submit_begin page0)"
    by (rule submit_begin_loading)
  have "length (requests (submit_begin page0)) = 1"
    by (simp add: submit_begin_def setLoading_def set_innerHTML_def page0_def Let_def)
  then show ?thesis
    using busy submit_while_loading_dropped [OF busy, of sample_parse sample_sanitize "Inr (Some ''Hi!'')"]
    by simp
qed

text \<open>The part of the handler that runs after the request ends in the idle state, from any page.\<close>

lemma submit_finish_idle:
  "\<not> isLoading (submit_finish mp san outcome s)
   \<and> \<not> generateBtn_disabled (submit_finish mp san outcome s)
   \<and> spinner_hidden (submit_finish mp san outcome s)
   \<and> btnText_textContent (submit_finish mp san outcome s) = ''Generate Keywords''"
  by (simp add: submit_finish_def setLoading_def)

text \<open>
  C9. Every run of the submit handler that starts on an idle page ends with \<open>isLoading\<close>
  false, the button enabled, the spinner hidden and the button text restored, whatever the
  request, the converter and the sanitizer did: success, empty response or thrown error.
  The part that runs after the request clears the flag from any page \<open>t\<close>, so other
  events in between do not change this.
\<close>

theorem loading_restored:
  assumes "\<not> isLoading s"
  shows "\<not> isLoading (handleFormSubmit mp san outcome s)
     \<and> \<not> generateBtn_disabled (handleFormSubmit mp san outcome s)
     \<and> spinner_hidden (handleFormSubmit mp san outcome s)
     \<and> btnText_textContent (handleFormSubmit mp san outcome s) = ''Generate Keywords''
     \<and> \<not> isLoading (submit_finish mp san outcome t)"
  using assms submit_finish_idle [of mp san outcome "submit_begin (s\<lparr>defaultPrevented := True\<rparr>)"]
    submit_finish_idle [of mp san outcome t]
  by (simp add: handleFormSubmit_def)

text \<open>Four runs on the sample page: success, empty response, rejected request, failing converter.\<close>

theorem loading_restored_sample:
  "\<not> isLoading page0
   \<and> \<not> isLoading (handleFormSubmit sample_parse sample_sanitize (Inr (Some ''Hi!'')) page0)
   \<and> \<not> isLoading (handleFormSubmit sample_parse sample_sanitize (Inr None) page0)
   \<and> \<not> isLoading (handleFormSubmit sample_parse sample_sanitize (Inl ''503'') page0)
   \<and> \<not> isLoading (handleFormSubmit (\<lambda>md. Inl ''parse'') sample_sanitize (Inr (Some ''Hi!'')) page0)"
proof -
  have idle: "\<not> isLoading page0"
    by (simp add: page0_def)
  show ?thesis
    using idle
      loading_restored [OF idle, of sample_parse sample_sanitize "Inr (Some ''Hi!'')" page0]
      loading_restored [OF idle, of sample_parse sample_sanitize "Inr None" page0]
      loading_restored [OF idle, of sample_parse sample_sanitize "Inl ''503''" page0]
      loading_restored [OF idle, of "\<lambda>md. Inl ''parse''" sample_sanitize "Inr (Some ''Hi!'')" page0]
    by simp
qed

subsection \<open>CSV escaping and reading back\<close>

lemma chars_distinct:
  "dquote \<noteq> comma" "dquote \<noteq> newline" "comma \<noteq> newline"
  "comma \<noteq> dquote" "newline \<noteq> dquote" "newline \<noteq> comma"
  by (simp_all add: dquote_def comma_def newline_def)

lemma add_chars_shape: "add_chars cell ((f # r) # rs) = ((cell @ f) # r) # rs"
  by (induction cell) (simp_all add: add_chars_def add_char_def)

text \<open>Reading a cell written without quotes, and one written inside quotes.\<close>

lemma read_unquoted:
  "\<not> list_ex special cell \<Longrightarrow> csv_read False (cell @ rest) = add_chars cell (csv_read False rest)"
  by (induction cell) (simp_all add: special_def add_chars_def)

lemma read_quoted:
  assumes "rest = [] \<or> hd rest \<noteq> dquote"
  shows "csv_read True (double_quotes cell @ dquote # rest) = add_chars cell (csv_read False rest)"
proof (induction cell)
  case Nil
  from assms show ?case
    by (cases rest) (simp_all add: double_quotes_def add_chars_def)
next
  case (Cons c cs)
  then show ?case
    by (simp add: double_quotes_def add_chars_def)
qed

lemma special_double_quotes: "list_ex special (double_quotes cell) = list_ex special cell"
  by (induction cell) (auto simp: double_quotes_def special_def)

lemma double_quotes_plain: "\<not> list_ex special cell \<Longrightarrow> double_quotes cell = cell"
  by (induction cell) (auto simp: double_quotes_def special_def)

lemma escape_cell_cases:
  "escape_cell cell =
     (if list_ex special cell then [dquote] @ double_quotes cell @ [dquote] else cell)"
proof -
  have "escape_cell cell =
      (if list_ex special (double_quotes cell) then [dquote] @ double_quotes cell @ [dquote]
       else double_quotes cell)"
    by (simp add: escape_cell_def double_quotes_def special_def [abs_def] Let_def)
  then show ?thesis
    by (simp add: special_double_quotes double_quotes_plain)
qed

lemma read_cell:
  assumes "rest = [] \<or> hd rest \<noteq> dquote"
  shows "csv_read False (escape_cell cell @ rest) = add_chars cell (csv_read False rest)"
proof (cases "list_ex special cell")
  case True
  then show ?thesis
    using read_quoted [OF assms, of cell] by (simp add: escape_cell_cases)
next
  case False
  then show ?thesis
    by (simp add: escape_cell_cases read_unquoted)
qed

text \<open>Reading one record, then the whole text, by induction on the non-empty list.\<close>

lemma read_line:
  assumes "row \<noteq> []" and "csv_read False rest = [[]] # R" and "rest = [] \<or> hd rest \<noteq> dquote"
  shows "csv_read False (csv_line row @ rest) = row # R"
  using assms(1)
proof (induction row rule: list_nonempty_induct)
  case (single cell)
  show ?case
    using read_cell [OF assms(3), of cell] assms(2)
    by (simp add: csv_line_def add_chars_shape)
next
  case (cons cell row)
  obtain c cs where row: "row = c # cs"
    using cons.hyps by (cases row) auto
  have "csv_line (cell # row) @ rest = escape_cell cell @ comma # (csv_line row @ rest)"
    by (simp add: csv_line_def row)
  moreover have "csv_read False (escape_cell cell @ comma # (csv_line row @ rest))
      = add_chars cell (csv_read False (comma # (csv_line row @ rest)))"
    by (rule read_cell) (simp add: chars_distinct)
  moreover have "csv_read False (comma # (csv_line row @ rest)) = ([] # row) # R"
    using cons.IH by (simp add: chars_distinct new_field_def)
  ultimately show ?case
    by (simp add: add_chars_shape)
qed

lemma read_content:
  assumes "data \<noteq> []" and "[] \<notin> set data"
  shows "csv_read False (csv_content data) = data"
  using assms
proof (induction data rule: list_nonempty_induct)
  case (single row)
  then have "row \<noteq> []"
    by auto
  then have "csv_read False (csv_line row @ []) = row # []"
    by (rule read_line) simp_all
  then show ?case
    by (simp add: csv_content_def csv_line_def)
next
  case (cons row data)
  obtain r rs where data: "data = r # rs"
    using cons.hyps by (cases data) auto
  have row: "row \<noteq> []" and rest: "[] \<notin> set data"
    using cons.prems by auto
  have "csv_content (row # data) = csv_line row @ newline # csv_content data"
    by (simp add: csv_content_def csv_line_def data)
  moreover have "csv_read False (csv_line row @ newline # csv_content data) = row # data"
  proof (rule read_line [OF row])
    show "csv_read False (newline # csv_content data) = [[]] # data"
      using cons.IH [OF rest] by (simp add: chars_distinct)
    show "newline # csv_content data = [] \<or> hd (newline # csv_content data) \<noteq> dquote"
      by (simp add: chars_distinct)
  qed
  ultimately show ?case
    by simp
qed


lemma special_iff:
  "list_ex special cell = (dquote \<in> set cell \<or> comma \<in> set cell \<or> newline \<in> set cell)"
  by (auto simp: list_ex_iff special_def)

text \<open>
  C2. For every cell, the export's escaping doubles each double quote and then encloses
  the cell in double quotes exactly when the cell contains a double quote, a comma or a
  line feed. Reading the escaped cell gives back the cell, and reading the text written
  for a non-empty list of non-empty rows gives back every row and every cell exactly.
\<close>

theorem csv_escape_round_trip:
  assumes "data \<noteq> []" and "[] \<notin> set data"
  shows "escape_cell cell =
       (if dquote \<in> set cell \<or> comma \<in> set cell \<or> newline \<in> set cell
        then [dquote] @ double_quotes cell @ [dquote] else double_quotes cell)
     \<and> csv_read False (escape_cell cell) = [[cell]]
     \<and> csv_read False (csv_content data) = data"
proof -
  have "escape_cell cell =
       (if dquote \<in> set cell \<or> comma \<in> set cell \<or> newline \<in> set cell
        then [dquote] @ double_quotes cell @ [dquote] else double_quotes cell)"
    using double_quotes_plain [of cell] by (simp add: escape_cell_cases special_iff)
  moreover have "csv_read False (escape_cell cell) = [[cell]]"
    using read_cell [of "[]" cell] by (simp add: add_chars_shape)
  ultimately show ?thesis
    using read_content [OF assms] by simp
qed

text \<open>Rows with a comma, quotes, a line feed, a carriage return and an empty cell.\<close>

theorem csv_escape_round_trip_sample:
  "sample_rows \<noteq> [] \<and> [] \<notin> set sample_rows
   \<and> escape_cell [CHR ''a'', dquote, CHR ''b''] = [dquote, CHR ''a'', dquote, dquote, CHR ''b'', dquote]
   \<and> escape_cell ''a b'' = ''a b''
   \<and> csv_read False (csv_content sample_rows) = sample_rows"
proof -
  have rows: "sample_rows \<noteq> []" and cells: "[] \<notin> set sample_rows"
    by (simp_all add: sample_rows_def)
  have plain: "dquote \<notin> set ''a b'' \<and> comma \<notin> set ''a b'' \<and> newline \<notin> set ''a b''"
    by (simp add: dquote_def comma_def newline_def)
  show ?thesis
    using rows cells plain
      csv_escape_round_trip [OF rows cells, of "[CHR ''a'', dquote, CHR ''b'']"]
      csv_escape_round_trip [OF rows cells, of "''a b''"]
    by (simp add: double_quotes_def dquote_def comma_def newline_def)
qed

subsection \<open>What the CSV export collects\<close>

text \<open>
  The loop over the headings is a loop over \<open>ad_group_tables\<close>: only such a table adds
  rows, and each adds its \<open>body_rows\<close>.
\<close>

lemma fold_push_row:
  "fold (push_row it) rows data
     = data @ filter (\<lambda>rowData. rowData \<noteq> []) (map (cell_texts it ''TD'') rows)"
  by (induction rows arbitrary: data) (simp_all add: push_row_def Let_def)

lemma csv_table_eq:
  "csv_table it b table (headers, data) =
     (if headers = []
      then (cell_texts it ''TH'' table, data @ [cell_texts it ''TH'' table] @ body_rows it (b, table))
      else (headers, data @ body_rows it (b, table)))"
  by (simp add: csv_table_def fold_push_row body_rows_def Let_def)

lemma csv_heading_eq:
  "csv_heading it h acc = fold (\<lambda>bt. csv_table it (fst bt) (snd bt)) (ad_group_table h) acc"
  by (cases h) (simp add: csv_heading_def ad_group_table_def split: option.split)

lemma fold_csv_heading:
  "fold (csv_heading it) hs acc
     = fold (\<lambda>bt. csv_table it (fst bt) (snd bt)) (concat (map ad_group_table hs)) acc"
  by (induction hs arbitrary: acc) (simp_all add: csv_heading_eq)

lemma csv_data_tables:
  "csv_data it doc = snd (fold (\<lambda>bt. csv_table it (fst bt) (snd bt)) (ad_group_tables doc) ([], []))"
  by (simp add: csv_data_def ad_group_tables_def fold_csv_heading)

lemma fold_csv_table_headed:
  "headers \<noteq> [] \<Longrightarrow>
   fold (\<lambda>bt. csv_table it (fst bt) (snd bt)) ts (headers, data)
     = (headers, data @ concat (map (body_rows it) ts))"
  by (induction ts arbitrary: data) (simp_all add: csv_table_eq)

text \<open>
  When the first of these tables has header cells, they are read from it alone and are
  the first row; the body rows of all the tables follow.
\<close>

lemma csv_data_header_first:
  assumes "ad_group_tables doc = bt # ts" and "cell_texts it ''TH'' (snd bt) \<noteq> []"
  shows "csv_data it doc = cell_texts it ''TH'' (snd bt) # concat (map (body_rows it) (bt # ts))"
proof -
  have "csv_table it (fst bt) (snd bt) ([], [])
      = (cell_texts it ''TH'' (snd bt), cell_texts it ''TH'' (snd bt) # body_rows it bt)"
    by (simp add: csv_table_eq)
  then show ?thesis
    using assms by (simp add: csv_data_tables fold_csv_table_headed)
qed

lemma csv_data_no_tables: "ad_group_tables doc = [] \<Longrightarrow> csv_data it doc = []"
  by (simp add: csv_data_tables)

text \<open>
  C3. The header cells are to be read once, from the first matching table, as the first
  row. On \<open>doc_headerless\<close>, whose first matching table has no \<open>th\<close> cell, the export reads
  header cells from both tables: its first row is empty, and the header \<open>K\<close> of the second
  table stands between the body rows \<open>x\<close> and \<open>y\<close>.
\<close>

theorem csv_header_read_twice:
  "csv_data textContent doc_headerless = [[], [''x''], [''K''], [''y'']]"
  by code_simp

text \<open>
  C4. When fewer than two rows were collected, the CSV export shows the notice
  \<open>No keyword data found to export.\<close> and starts no download.
\<close>

theorem csv_export_refuses:
  assumes "length (csv_data it doc) < 2"
  shows "exportKeywordsToCSV it doc s = alert ''No keyword data found to export.'' s
     \<and> alerts (exportKeywordsToCSV it doc s) = alerts s @ [''No keyword data found to export.'']
     \<and> downloads (exportKeywordsToCSV it doc s) = downloads s"
  using assms by (simp add: exportKeywordsToCSV_def alert_def Let_def)

text \<open>A table with a head and no body rows: one row collected, no file.\<close>

theorem csv_export_refuses_sample:
  "csv_data textContent doc_header_only = [[''Keyword'', ''Competition'']]
   \<and> length (csv_data textContent doc_header_only) < 2
   \<and> alerts (exportKeywordsToCSV textContent doc_header_only page0)
       = [''No keyword data found to export.'']
   \<and> downloads (exportKeywordsToCSV textContent doc_header_only page0) = []"
proof -
  have rows: "csv_data textContent doc_header_only = [[''Keyword'', ''Competition'']]"
    by code_simp
  have few: "length (csv_data textContent doc_header_only) < 2"
    by (simp add: rows)
  have "alerts page0 = [] \<and> downloads page0 = []"
    by (simp add: page0_def)
  then show ?thesis
    using rows few csv_export_refuses [OF few, of page0] by (simp add: alert_def)
qed

subsection \<open>Heading levels\<close>

lemma fold_unchanged: "(\<And>x. x \<in> set xs \<Longrightarrow> f x acc = acc) \<Longrightarrow> fold f xs acc = acc"
  by (induction xs) simp_all

text \<open>
  C10. The CSV export looks at \<open>h4\<close> elements only and the JSON export at \<open>h3\<close> elements
  only. In a document where no element with a text starting with \<open>Ad Group:\<close> is an \<open>h4\<close>,
  and no element with the text \<open>Priority Keywords\<close> is an \<open>h3\<close>, the headings of other
  levels add no rows: the CSV export collects nothing, the JSON export finds no heading,
  and both refuse with their notice. In general, two documents with the same \<open>h4\<close>
  elements give the same CSV rows, and two with the same \<open>h3\<close> elements the same JSON
  export, whatever headings of other levels they contain.
\<close>

theorem other_heading_levels_ignored:
  assumes "\<forall>h\<in>set (descendants False doc).
       prefix ''Ad Group:'' (textContent (fst (snd h))) \<longrightarrow> \<not> has_tag ''H4'' h"
    and "\<forall>h\<in>set (descendants False doc).
       trim (textContent (fst (snd h))) = ''Priority Keywords'' \<longrightarrow> \<not> has_tag ''H3'' h"
  shows "csv_data it doc = []
     \<and> exportKeywordsToCSV it doc s = alert ''No keyword data found to export.'' s
     \<and> priorityHeading doc = None
     \<and> exportPriorityKeywordsToJSON it stringify doc s
         = alert ''No priority keywords found to export.'' s
     \<and> (filter (has_tag ''H4'') (descendants False doc1) = filter (has_tag ''H4'') (descendants False doc2)
          \<longrightarrow> csv_data it doc1 = csv_data it doc2
              \<and> exportKeywordsToCSV it doc1 s = exportKeywordsToCSV it doc2 s)
     \<and> (filter (has_tag ''H3'') (descendants False doc1) = filter (has_tag ''H3'') (descendants False doc2)
          \<longrightarrow> exportPriorityKeywordsToJSON it stringify doc1 s
              = exportPriorityKeywordsToJSON it stringify doc2 s)"
proof -
  have "csv_heading it h acc = acc" if "h \<in> set (querySelectorAll ''H4'' False doc)" for h acc
  proof -
    from that have "h \<in> set (descendants False doc)" and "has_tag ''H4'' h"
      by (simp_all add: querySelectorAll_def)
    with assms(1) have "\<not> prefix ''Ad Group:'' (textContent (fst (snd h)))"
      by blast
    then show ?thesis
      by (cases h) (simp add: csv_heading_def)
  qed
  then have "fold (csv_heading it) (querySelectorAll ''H4'' False doc) ([], []) = ([], [])"
    by (rule fold_unchanged)
  then have csv: "csv_data it doc = []"
    by (simp add: csv_data_def)
  have json: "priorityHeading doc = None"
    using assms(2) by (auto simp: priorityHeading_def find_None_iff querySelectorAll_def)
  have none: "csv_data it doc = []
     \<and> exportKeywordsToCSV it doc s = alert ''No keyword data found to export.'' s
     \<and> priorityHeading doc = None
     \<and> exportPriorityKeywordsToJSON it stringify doc s
         = alert ''No priority keywords found to export.'' s"
    using csv json by (simp add: exportKeywordsToCSV_def exportPriorityKeywordsToJSON_def)
  have same_h4: "csv_data it doc1 = csv_data it doc2
      \<and> exportKeywordsToCSV it doc1 s = exportKeywordsToCSV it doc2 s"
    if "filter (has_tag ''H4'') (descendants False doc1) = filter (has_tag ''H4'') (descendants False doc2)"
    using that by (simp add: exportKeywordsToCSV_def csv_data_def querySelectorAll_def)
  have same_h3: "exportPriorityKeywordsToJSON it stringify doc1 s
      = exportPriorityKeywordsToJSON it stringify doc2 s"
    if "filter (has_tag ''H3'') (descendants False doc1) = filter (has_tag ''H3'') (descendants False doc2)"
    using that by (simp add: exportPriorityKeywordsToJSON_def priorityHeading_def querySelectorAll_def)
  show ?thesis
    using none same_h4 same_h3 by blast
qed

text \<open>
  Both headings are present in \<open>doc_levels\<close>, one level off, each followed by a table; and
  the extra headings of \<open>doc_mixed\<close> change nothing in the exports of the scenario.
\<close>

theorem other_heading_levels_sample:
  "(\<exists>h\<in>set (descendants False doc_levels). prefix ''Ad Group:'' (textContent (fst (snd h))))
   \<and> (\<exists>h\<in>set (descendants False doc_levels). trim (textContent (fst (snd h))) = ''Priority Keywords'')
   \<and> csv_data textContent doc_levels = []
   \<and> alerts (exportKeywordsToCSV textContent doc_levels page0) = [''No keyword data found to export.'']
   \<and> alerts (exportPriorityKeywordsToJSON textContent (\<lambda>data. []) doc_levels page0)
        = [''No priority keywords found to export.'']
   \<and> downloads (exportPriorityKeywordsToJSON textContent (\<lambda>data. []) doc_levels page0) = []
   \<and> csv_data textContent doc_mixed = csv_data textContent doc_scenario
   \<and> exportPriorityKeywordsToJSON textContent (\<lambda>data. []) doc_mixed page0
       = exportPriorityKeywordsToJSON textContent (\<lambda>data. []) doc_scenario page0"
proof -
  have h4: "\<forall>h\<in>set (descendants False doc_levels).
       prefix ''Ad Group:'' (textContent (fst (snd h))) \<longrightarrow> \<not> has_tag ''H4'' h"
    by code_simp
  have h3: "\<forall>h\<in>set (descendants False doc_levels).
       trim (textContent (fst (snd h))) = ''Priority Keywords'' \<longrightarrow> \<not> has_tag ''H3'' h"
    by code_simp
  have present: "(\<exists>h\<in>set (descendants False doc_levels). prefix ''Ad Group:'' (textContent (fst (snd h))))
      \<and> (\<exists>h\<in>set (descendants False doc_levels). trim (textContent (fst (snd h))) = ''Priority Keywords'')"
    by code_simp
  have same4: "filter (has_tag ''H4'') (descendants False doc_mixed)
      = filter (has_tag ''H4'') (descendants False doc_scenario)"
    by code_simp
  have same3: "filter (has_tag ''H3'') (descendants False doc_mixed)
      = filter (has_tag ''H3'') (descendants False doc_scenario)"
    by code_simp
  have "alerts page0 = [] \<and> downloads page0 = []"
    by (simp add: page0_def)
  then show ?thesis
    using present same4 same3
      other_heading_levels_ignored [OF h4 h3, of textContent page0 "\<lambda>data. []" doc_mixed doc_scenario]
    by (simp add: alert_def)
qed

subsection \<open>What the JSON export collects\<close>

lemma fold_json_row:
  "fold (json_row it headers) rows data
     = data @ map (\<lambda>row. row_object it headers (cell_nodes ''TD'' row))
                (filter (\<lambda>row. length (cell_nodes ''TD'' row) = length headers) rows)"
  by (induction rows arbitrary: data) (simp_all add: json_row_def Let_def)

lemma json_data_eq:
  "json_data it (b, heading, Some table) =
     (if tagName table = ''TABLE''
      then map (\<lambda>row. row_object it (cell_texts it ''TH'' table) (cell_nodes ''TD'' row))
             (filter (\<lambda>row. length (cell_nodes ''TD'' row) = length (cell_texts it ''TH'' table))
                (tbody_tr b table))
      else [])"
  by (simp add: json_data_def fold_json_row Let_def)

text \<open>
  Assigning to a key updates the map that the object stands for, keeps the keys distinct
  and keeps their order: array indices first and ascending, then the other keys.
\<close>

lemma map_of_set_value_at:
  "map_of (set_value k v obj) x
     = (if x = k \<and> k \<in> fst ` set obj then Some v else map_of obj x)"
  by (induction obj) (force simp: set_value_def)+

lemma map_of_set_value:
  "k \<in> set (map fst obj) \<Longrightarrow> map_of (set_value k v obj) = (map_of obj)(k \<mapsto> v)"
  by (auto simp: fun_eq_iff map_of_set_value_at)

lemma keys_set_value: "map fst (set_value k v obj) = map fst obj"
  by (induction obj) (simp_all add: set_value_def)

lemma map_of_insert_index:
  "k \<notin> set (map fst obj) \<Longrightarrow> map_of (insert_index k v obj) = (map_of obj)(k \<mapsto> v)"
  by (induction obj) (auto simp: fun_eq_iff)

lemma keys_insert_index: "fst ` set (insert_index k v obj) = insert k (fst ` set obj)"
  by (induction obj) auto

lemma distinct_insert_index:
  "k \<notin> set (map fst obj) \<Longrightarrow> distinct (map fst obj) \<Longrightarrow> distinct (map fst (insert_index k v obj))"
  by (induction obj) (auto simp: keys_insert_index)

lemma map_of_append_new:
  "k \<notin> set (map fst obj) \<Longrightarrow> map_of (obj @ [(k, v)]) = (map_of obj)(k \<mapsto> v)"
  by (induction obj) (auto simp: fun_eq_iff)

lemma map_of_assign: "map_of (assign k v obj) = (map_of obj)(k \<mapsto> v)"
  using map_of_set_value [of k obj v] map_of_insert_index [of k obj v] map_of_append_new [of k obj v]
  by (simp add: assign_def)

lemma distinct_assign: "distinct (map fst obj) \<Longrightarrow> distinct (map fst (assign k v obj))"
  using distinct_insert_index [of k obj v] by (simp add: assign_def keys_set_value)


lemma key_order_insert_index:
  "is_array_index k \<Longrightarrow> key_order (map fst obj) \<Longrightarrow> key_order (map fst (insert_index k v obj))"
proof (induction obj)
  case Nil
  show ?case by simp
next
  case (Cons p ps)
  show ?case
  proof (cases "is_array_index (fst p) \<and> index_value (fst p) < index_value k")
    case False
    then have "key_before k (fst p)"
      using Cons.prems(1) by (auto simp: key_before_def)
    moreover have "insert_index k v (p # ps) = (k, v) # p # ps"
      using False by auto
    ultimately show ?thesis
      using Cons.prems(2) by simp
  next
    case True
    then have first: "key_before (fst p) k"
      using Cons.prems(1) by (simp add: key_before_def)
    show ?thesis
    proof (cases ps)
      case Nil
      then show ?thesis
        using True first by simp
    next
      case (Cons q qs)
      then have rest: "key_order (map fst (insert_index k v ps))" and next_key: "key_before (fst p) (fst q)"
        using Cons.IH Cons.prems by simp_all
      then show ?thesis
        using True first Cons by auto
    qed
  qed
qed

lemma key_order_append:
  "\<not> is_array_index k \<Longrightarrow> key_order ks \<Longrightarrow> key_order (ks @ [k])"
  by (induction ks rule: key_order.induct) (auto simp: key_before_def)

lemma key_order_assign: "key_order (map fst obj) \<Longrightarrow> key_order (map fst (assign k v obj))"
  using key_order_insert_index [of k obj v] key_order_append [of k "map fst obj"]
  by (simp add: assign_def keys_set_value)

lemma map_of_set_property:
  "map_of (set_property k v obj) x
     = (if k = ''__proto__'' then map_of obj x else ((map_of obj)(k \<mapsto> v)) x)"
  by (simp add: set_property_def map_of_assign)

lemma keys_fold_set_property:
  "distinct (map fst obj) \<and> key_order (map fst obj) \<Longrightarrow>
   distinct (map fst (fold (\<lambda>i. set_property (key i) (val i)) indices obj))
   \<and> key_order (map fst (fold (\<lambda>i. set_property (key i) (val i)) indices obj))"
proof (induction indices arbitrary: obj)
  case Nil
  then show ?case by simp
next
  case (Cons i indices)
  have "distinct (map fst (set_property (key i) (val i) obj))
      \<and> key_order (map fst (set_property (key i) (val i) obj))"
    using Cons.prems by (simp add: set_property_def distinct_assign key_order_assign)
  then show ?case
    using Cons.IH by simp
qed

lemma row_object_keys:
  "distinct (map fst (row_object it headers cells)) \<and> key_order (map fst (row_object it headers cells))"
  using keys_fold_set_property [of "[]" "\<lambda>i. headers ! i" "\<lambda>i. trim (it (cells ! i))" "[0 ..< length headers]"]
  by (simp add: row_object_def)

text \<open>
  The object of a row maps each header other than \<open>__proto__\<close> to the trimmed text of the
  last cell under that header.
\<close>

lemma row_object_prefix_map:
  assumes "length cells = length headers"
  shows "n \<le> length headers \<Longrightarrow>
     map_of (fold (\<lambda>index rowData. set_property (headers ! index) (trim (it (cells ! index))) rowData)
       [0 ..< n] []) k
     = (if k = ''__proto__'' then None
        else map_of (rev (zip (take n headers) (map (\<lambda>c. trim (it c)) (take n cells)))) k)"
proof (induction n)
  case 0
  show ?case by simp
next
  case (Suc n)
  have n: "n < length headers" "n < length cells"
    using Suc.prems assms by simp_all
  have "zip (take (Suc n) headers) (map (\<lambda>c. trim (it c)) (take (Suc n) cells))
      = zip (take n headers) (map (\<lambda>c. trim (it c)) (take n cells)) @ [(headers ! n, trim (it (cells ! n)))]"
    using n by (simp add: take_Suc_conv_app_nth)
  moreover have "map_of (fold (\<lambda>index rowData. set_property (headers ! index) (trim (it (cells ! index))) rowData)
       [0 ..< n] []) k
     = (if k = ''__proto__'' then None
        else map_of (rev (zip (take n headers) (map (\<lambda>c. trim (it c)) (take n cells)))) k)"
    using Suc.IH Suc.prems by simp
  ultimately show ?case
    by (cases "k = ''__proto__''") (simp_all add: map_of_set_property)
qed

lemma row_object_map:
  assumes "length cells = length headers"
  shows "map_of (row_object it headers cells) k
     = (if k = ''__proto__'' then None
        else map_of (rev (zip headers (map (\<lambda>c. trim (it c)) cells))) k)"
  using row_object_prefix_map [OF assms, of "length headers" it k] assms
  by (simp add: row_object_def)

text \<open>
  With distinct header names, none of them \<open>__proto__\<close> or an array index, the object of a
  row pairs the headers with the cells in the order of the columns.
\<close>

lemma assign_fresh:
  "k \<notin> fst ` set obj \<Longrightarrow> \<not> is_array_index k \<Longrightarrow> assign k v obj = obj @ [(k, v)]"
  by (simp add: assign_def)

lemma row_object_prefix:
  assumes "distinct headers" and "''__proto__'' \<notin> set headers"
    and "\<not> list_ex is_array_index headers" and "length cells = length headers"
  shows "n \<le> length headers \<Longrightarrow>
     fold (\<lambda>index rowData. set_property (headers ! index) (trim (it (cells ! index))) rowData)
       [0 ..< n] []
     = zip (take n headers) (map (\<lambda>c. trim (it c)) (take n cells))"
proof (induction n)
  case 0
  show ?case by simp
next
  case (Suc n)
  let ?obj = "zip (take n headers) (map (\<lambda>c. trim (it c)) (take n cells))"
  have n: "n < length headers" "n < length cells"
    using Suc.prems assms(4) by simp_all
  have "headers ! n \<notin> set (take n headers)"
    using assms(1) n(1) by (metis distinct_take id_take_nth_drop not_distinct_conv_prefix)
  then have fresh: "headers ! n \<notin> fst ` set ?obj"
    by (metis (no_types, lifting) imageE in_set_zipE prod.collapse set_zip_leftD)
  have "headers ! n \<in> set headers"
    using n(1) by (rule nth_mem)
  then have named: "headers ! n \<noteq> ''__proto__''" and plain: "\<not> is_array_index (headers ! n)"
    using assms(2,3) by (auto simp: list_ex_iff)
  have "set_property (headers ! n) (trim (it (cells ! n))) ?obj
      = ?obj @ [(headers ! n, trim (it (cells ! n)))]"
    using fresh named plain by (simp add: set_property_def assign_fresh)
  moreover have "zip (take (Suc n) headers) (map (\<lambda>c. trim (it c)) (take (Suc n) cells))
      = ?obj @ [(headers ! n, trim (it (cells ! n)))]"
    using n by (simp add: take_Suc_conv_app_nth)
  ultimately show ?case
    using Suc by simp
qed

lemma row_object_zip:
  assumes "distinct headers" and "''__proto__'' \<notin> set headers"
    and "\<not> list_ex is_array_index headers" and "length cells = length headers"
  shows "row_object it headers cells = zip headers (map (\<lambda>c. trim (it c)) cells)"
  using row_object_prefix [OF assms, of "length headers" it] assms(4)
  by (simp add: row_object_def)


text \<open>
  C5. The JSON export takes a body row of the table after the \<open>Priority Keywords\<close> heading
  exactly when the row has as many cells as the table has header cells, and skips the
  other rows without a notice. The object of a taken row has distinct keys, array indices
  first in ascending order, and maps each header other than \<open>__proto__\<close> to the trimmed
  text of the last cell under that header; with distinct headers, none of them
  \<open>__proto__\<close> or an array index, it pairs the headers with the cells in column order.
  When there is no such heading, or no row was taken, the export adds the notice
  \<open>No priority keywords found to export.\<close> to the alerts and starts no download;
  otherwise it shows no notice and downloads the serialized rows.
\<close>

theorem json_rows_matching:
  "json_data it (b, heading, Some table) =
     (if tagName table = ''TABLE''
      then map (\<lambda>row. row_object it (cell_texts it ''TH'' table) (cell_nodes ''TD'' row))
             (filter (\<lambda>row. length (cell_nodes ''TD'' row) = length (cell_texts it ''TH'' table))
                (tbody_tr b table))
      else [])
   \<and> distinct (map fst (row_object it headers cells))
   \<and> key_order (map fst (row_object it headers cells))
   \<and> (length cells = length headers
        \<longrightarrow> map_of (row_object it headers cells) k
              = (if k = ''__proto__'' then None
                 else map_of (rev (zip headers (map (\<lambda>c. trim (it c)) cells))) k))
   \<and> (distinct headers \<and> ''__proto__'' \<notin> set headers \<and> \<not> list_ex is_array_index headers
          \<and> length cells = length headers
        \<longrightarrow> row_object it headers cells = zip headers (map (\<lambda>c. trim (it c)) cells))
   \<and> (priorityHeading doc = None \<or> (\<exists>h. priorityHeading doc = Some h \<and> json_data it h = [])
        \<longrightarrow> exportPriorityKeywordsToJSON it stringify doc s
              = alert ''No priority keywords found to export.'' s
            \<and> alerts (exportPriorityKeywordsToJSON it stringify doc s)
                = alerts s @ [''No priority keywords found to export.'']
            \<and> downloads (exportPriorityKeywordsToJSON it stringify doc s) = downloads s)
   \<and> (\<forall>h. priorityHeading doc = Some h \<and> json_data it h \<noteq> []
        \<longrightarrow> exportPriorityKeywordsToJSON it stringify doc s
              = downloadFile (stringify (json_data it h)) ''priority_keywords.json''
                  ''application/json;charset=utf-8;'' s
            \<and> alerts (exportPriorityKeywordsToJSON it stringify doc s) = alerts s
            \<and> downloads (exportPriorityKeywordsToJSON it stringify doc s)
                = downloads s @ [(stringify (json_data it h), ''priority_keywords.json'',
                                  ''application/json;charset=utf-8;'')])"
proof -
  have refuse: "exportPriorityKeywordsToJSON it stringify doc s
        = alert ''No priority keywords found to export.'' s
      \<and> alerts (exportPriorityKeywordsToJSON it stringify doc s)
          = alerts s @ [''No priority keywords found to export.'']
      \<and> downloads (exportPriorityKeywordsToJSON it stringify doc s) = downloads s"
    if "priorityHeading doc = None \<or> (\<exists>h. priorityHeading doc = Some h \<and> json_data it h = [])"
    using that by (auto simp: exportPriorityKeywordsToJSON_def alert_def)
  have export: "exportPriorityKeywordsToJSON it stringify doc s
        = downloadFile (stringify (json_data it h)) ''priority_keywords.json''
            ''application/json;charset=utf-8;'' s
      \<and> alerts (exportPriorityKeywordsToJSON it stringify doc s) = alerts s
      \<and> downloads (exportPriorityKeywordsToJSON it stringify doc s)
          = downloads s @ [(stringify (json_data it h), ''priority_keywords.json'',
                            ''application/json;charset=utf-8;'')]"
    if "priorityHeading doc = Some h \<and> json_data it h \<noteq> []" for h
    using that by (simp add: exportPriorityKeywordsToJSON_def downloadFile_def)
  show ?thesis
    using json_data_eq [of it b heading table] row_object_keys [of it headers cells]
      row_object_map [of cells headers it k] row_object_zip [of headers cells it] refuse export
    by blast
qed

text \<open>
  In \<open>doc_ragged\<close> the row with one cell is skipped and the other is exported; in
  \<open>doc_mismatch\<close> every row is skipped and the export refuses with its notice; in
  \<open>doc_indexed\<close> the keys \<open>0\<close> and \<open>1\<close> come first; in \<open>doc_repeated\<close> the later cell under
  \<open>k\<close> wins and \<open>__proto__\<close> is left out.
\<close>

theorem json_rows_matching_sample:
  "json_data textContent (the (priorityHeading doc_ragged))
       = [[(''Priority Keyword'', ''plumber''), (''Reason'', ''volume'')]]
   \<and> priorityHeading doc_mismatch \<noteq> None
   \<and> alerts (exportPriorityKeywordsToJSON textContent sample_stringify doc_mismatch page0)
       = [''No priority keywords found to export.'']
   \<and> downloads (exportPriorityKeywordsToJSON textContent sample_stringify doc_mismatch page0) = []
   \<and> json_data textContent (the (priorityHeading doc_indexed))
       = [[(''0'', ''z''), (''1'', ''x''), (''b'', ''w''), (''a'', ''y'')]]
   \<and> alerts (exportPriorityKeywordsToJSON textContent sample_stringify doc_indexed page0) = []
   \<and> downloads (exportPriorityKeywordsToJSON textContent sample_stringify doc_indexed page0)
       = [(''{0:z;1:x;b:w;a:y;}'', ''priority_keywords.json'', ''application/json;charset=utf-8;'')]
   \<and> json_data textContent (the (priorityHeading doc_repeated)) = [[(''k'', ''second'')]]
   \<and> map_of (row_object textContent [''b'', ''1'', ''a'', ''0'']
         [Element ''TD'' [Text ''w''], Element ''TD'' [Text ''x''],
          Element ''TD'' [Text ''y''], Element ''TD'' [Text ''z'']]) ''1'' = Some ''x''
   \<and> row_object textContent [''Priority Keyword'', ''Reason'']
         [Element ''TD'' [Text ''plumber''], Element ''TD'' [Text ''volume'']]
       = [(''Priority Keyword'', ''plumber''), (''Reason'', ''volume'')]"
proof -
  let ?heading = "heading_node ''H3'' ''Priority Keywords''"
  let ?ragged = "table_node [''Priority Keyword'', ''Reason''] [[''plumber'', ''volume''], [''leak repair'']]"
  let ?mismatch = "table_node [''Priority Keyword'', ''Reason''] [[''plumber''], [''leak repair'']]"
  let ?indexed = "table_node [''b'', ''1'', ''a'', ''0''] [[''w'', ''x'', ''y'', ''z'']]"
  let ?cells4 = "[Element ''TD'' [Text ''w''], Element ''TD'' [Text ''x''],
      Element ''TD'' [Text ''y''], Element ''TD'' [Text ''z'']]"
  let ?cells2 = "[Element ''TD'' [Text ''plumber''], Element ''TD'' [Text ''volume'']]"
  have ragged: "the (priorityHeading doc_ragged) = (False, ?heading, Some ?ragged)"
    by code_simp
  have ragged_rows: "json_data textContent (False, ?heading, Some ?ragged)
      = [[(''Priority Keyword'', ''plumber''), (''Reason'', ''volume'')]]"
    by code_simp
  have mismatch: "priorityHeading doc_mismatch = Some (False, ?heading, Some ?mismatch)"
    by code_simp
  have mismatch_rows: "json_data textContent (False, ?heading, Some ?mismatch) = []"
    by code_simp
  have indexed: "priorityHeading doc_indexed = Some (False, ?heading, Some ?indexed)"
    by code_simp
  have indexed_rows: "json_data textContent (False, ?heading, Some ?indexed)
      = [[(''0'', ''z''), (''1'', ''x''), (''b'', ''w''), (''a'', ''y'')]]"
    by code_simp
  have written: "sample_stringify [[(''0'', ''z''), (''1'', ''x''), (''b'', ''w''), (''a'', ''y'')]]
      = ''{0:z;1:x;b:w;a:y;}''"
    by code_simp
  have repeated: "json_data textContent (the (priorityHeading doc_repeated)) = [[(''k'', ''second'')]]"
    by code_simp
  have start: "alerts page0 = []" "downloads page0 = []"
    by (simp_all add: page0_def)
  have none: "priorityHeading doc_mismatch = None
      \<or> (\<exists>h. priorityHeading doc_mismatch = Some h \<and> json_data textContent h = [])"
    using mismatch mismatch_rows by blast
  have some: "priorityHeading doc_indexed = Some (False, ?heading, Some ?indexed)
      \<and> json_data textContent (False, ?heading, Some ?indexed) \<noteq> []"
    using indexed indexed_rows by simp
  have lengths: "length ?cells4 = length [''b'', ''1'', ''a'', ''0'']"
    by simp
  have plain: "distinct [''Priority Keyword'', ''Reason'']
      \<and> ''__proto__'' \<notin> set [''Priority Keyword'', ''Reason'']
      \<and> \<not> list_ex is_array_index [''Priority Keyword'', ''Reason'']
      \<and> length ?cells2 = length [''Priority Keyword'', ''Reason'']"
    by code_simp
  note refusal = json_rows_matching [where it = textContent and b = False and heading = ?heading
      and table = ?mismatch and headers = "[''b'', ''1'', ''a'', ''0'']" and cells = ?cells4
      and k = "''1''" and doc = doc_mismatch and stringify = sample_stringify and s = page0]
  note export = json_rows_matching [where it = textContent and b = False and heading = ?heading
      and table = ?indexed and headers = "[''Priority Keyword'', ''Reason'']" and cells = ?cells2
      and k = "''1''" and doc = doc_indexed and stringify = sample_stringify and s = page0]
  have refused: "alerts (exportPriorityKeywordsToJSON textContent sample_stringify doc_mismatch page0)
        = alerts page0 @ [''No priority keywords found to export.'']
      \<and> downloads (exportPriorityKeywordsToJSON textContent sample_stringify doc_mismatch page0)
        = downloads page0"
    using refusal none by blast
  have exported: "alerts (exportPriorityKeywordsToJSON textContent sample_stringify doc_indexed page0)
        = alerts page0
      \<and> downloads (exportPriorityKeywordsToJSON textContent sample_stringify doc_indexed page0)
        = downloads page0 @ [(sample_stringify (json_data textContent (False, ?heading, Some ?indexed)),
            ''priority_keywords.json'', ''application/json;charset=utf-8;'')]"
    using export some by blast
  have looked_up: "map_of (row_object textContent [''b'', ''1'', ''a'', ''0''] ?cells4) ''1''
      = (if ''1'' = ''__proto__'' then None
         else map_of (rev (zip [''b'', ''1'', ''a'', ''0''] (map (\<lambda>c. trim (textContent c)) ?cells4))) ''1'')"
    using refusal lengths by blast
  have value_x: "map_of (row_object textContent [''b'', ''1'', ''a'', ''0''] ?cells4) ''1'' = Some ''x''"
    unfolding looked_up by code_simp
  have paired: "row_object textContent [''Priority Keyword'', ''Reason''] ?cells2
      = zip [''Priority Keyword'', ''Reason''] (map (\<lambda>c. trim (textContent c)) ?cells2)"
    using export plain by blast
  have pairs: "zip [''Priority Keyword'', ''Reason''] (map (\<lambda>c. trim (textContent c)) ?cells2)
      = [(''Priority Keyword'', ''plumber''), (''Reason'', ''volume'')]"
    by code_simp
  show ?thesis
    using ragged ragged_rows mismatch refused exported indexed indexed_rows written repeated
      value_x paired pairs start
    by simp
qed

subsection \<open>The exported file reads back, and the scenario\<close>

text \<open>
  When the first ad group table has header cells, no collected row is empty, so the text
  that the CSV export writes reads back as the collected rows.
\<close>

lemma body_rows_nonempty: "[] \<notin> set (concat (map (body_rows it) ts))"
  by (induction ts) (simp_all add: body_rows_def)

lemma exported_csv_reads_back:
  assumes "ad_group_tables doc = bt # ts" and "cell_texts it ''TH'' (snd bt) \<noteq> []"
  shows "csv_read False (csv_content (csv_data it doc)) = csv_data it doc"
proof -
  have rows: "csv_data it doc = cell_texts it ''TH'' (snd bt) # concat (map (body_rows it) (bt # ts))"
    using assms by (rule csv_data_header_first)
  have "[] \<notin> set (csv_data it doc)"
    using assms(2) body_rows_nonempty [of it "bt # ts"] by (simp only: rows set_simps) auto
  moreover have "csv_data it doc \<noteq> []"
    by (simp add: rows)
  ultimately show ?thesis
    using read_content by blast
qed

text \<open>
  The scenario of the specification: the CSV export collects three rows (the head and two
  body rows), the JSON export two objects with the two header keys.
\<close>

lemma scenario_csv:
  "csv_data textContent doc_scenario
     = [[''Keyword'', ''Competition''], [''plumber, 24h'', ''High''], [''leak repair'', ''Low'']]"
  by code_simp

lemma scenario_json:
  "map_option (json_data textContent) (priorityHeading doc_scenario)
     = Some [[(''Priority Keyword'', ''leak repair''), (''Reason'', ''intent'')],
             [(''Priority Keyword'', ''plumber''), (''Reason'', ''volume'')]]"
  by code_simp

end
